theory Spec2Isabelle
  imports Main "HOL-Library.Word"
begin

unbundle bit_operations_syntax

section \<open>Go values: errors, panics, byte slices\<close>

text \<open>
  A Go \<open>string\<close> and the contents of a Go \<open>[]byte\<close> are sequences of 8-bit values; both
  are modelled as HOL strings (lists of 8-bit characters). An \<open>error\<close> result is
  \<open>go_error option\<close>, with \<open>None\<close> for \<open>nil\<close>. A call either returns or panics.
\<close>

datatype go_error = GoError string

datatype panic =
    PanicLog go_error            \<comment> \<open>\<open>log.Panic(err)\<close>\<close>
  | SliceBoundsCap nat nat       \<comment> \<open>slice bounds out of range \<open>[:n]\<close> with capacity \<open>c\<close>\<close>
  | SliceBoundsLen nat nat       \<comment> \<open>slice bounds out of range \<open>[n:l]\<close> with length \<open>l\<close>\<close>
  | IndexOutOfRange nat nat      \<comment> \<open>index out of range \<open>[i]\<close> with length \<open>l\<close>\<close>

datatype 'a outcome = Return 'a | Panic panic

fun bind_outcome :: "'a outcome \<Rightarrow> ('a \<Rightarrow> 'b outcome) \<Rightarrow> 'b outcome" where
  "bind_outcome (Return x) f = f x"
| "bind_outcome (Panic p) f = Panic p"

text \<open>
  Byte slices live in a store of backing arrays, addressed by their index in the store.
  A slice is a window on one array: where it starts, how many bytes it holds and how far
  it may grow in place.
\<close>

type_synonym heap = "string list"

record slice =
  arr :: nat
  off :: nat
  len :: nat
  cap :: nat

definition valid_slice :: "heap \<Rightarrow> slice \<Rightarrow> bool" where
  "valid_slice h s \<longleftrightarrow>
     arr s < length h \<and> len s \<le> cap s \<and> off s + cap s \<le> length (h ! arr s) \<and> cap s < 2 ^ 63"

definition slice_bytes :: "heap \<Rightarrow> slice \<Rightarrow> string" where
  "slice_bytes h s = take (len s) (drop (off s) (h ! arr s))"

text \<open>\<open>make([]byte, n)\<close>: a fresh zeroed array.\<close>

definition make_bytes :: "heap \<Rightarrow> nat \<Rightarrow> heap \<times> slice" where
  "make_bytes h n = (h @ [replicate n (CHR 0x00)], \<lparr>arr = length h, off = 0, len = n, cap = n\<rparr>)"

text \<open>\<open>[]byte(s)\<close> for a string \<open>s\<close>: a fresh array holding a copy of the string.\<close>

definition bytes_of_string :: "heap \<Rightarrow> string \<Rightarrow> heap \<times> slice" where
  "bytes_of_string h s = (h @ [s], \<lparr>arr = length h, off = 0, len = length s, cap = length s\<rparr>)"

text \<open>\<open>s[:n]\<close> on a slice: allowed up to the capacity, a panic beyond it.\<close>

definition reslice_to :: "slice \<Rightarrow> nat \<Rightarrow> slice outcome" where
  "reslice_to s n = (if n \<le> cap s then Return (s\<lparr>len := n\<rparr>) else Panic (SliceBoundsCap n (cap s)))"

text \<open>Copying the bytes \<open>xs\<close> into array \<open>a\<close> from position \<open>p\<close> on.\<close>

definition store :: "heap \<Rightarrow> nat \<Rightarrow> nat \<Rightarrow> string \<Rightarrow> heap" where
  "store h a p xs = h[a := take p (h ! a) @ xs @ drop (p + length xs) (h ! a)]"

text \<open>
  \<open>append(s, t...)\<close>: the bytes of \<open>t\<close> are written behind the bytes of \<open>s\<close> in the array of
  \<open>s\<close> when its capacity allows it; otherwise a fresh array receives the bytes of both
  (the Go runtime may give it more capacity than needed).
\<close>

definition append_slice :: "heap \<Rightarrow> slice \<Rightarrow> slice \<Rightarrow> heap \<times> slice" where
  "append_slice h s t =
     (let xs = slice_bytes h t in
      if len s + length xs \<le> cap s
      then (store h (arr s) (off s + len s) xs, s\<lparr>len := len s + length xs\<rparr>)
      else (h @ [slice_bytes h s @ xs],
            \<lparr>arr = length h, off = 0, len = len s + length xs, cap = len s + length xs\<rparr>))"

section \<open>encoding/binary: little-endian 64-bit integers\<close>

definition byte :: "64 word \<Rightarrow> char" where
  "byte v = char_of (unat v)"

definition le_bytes :: "64 word \<Rightarrow> string" where
  "le_bytes v =
     [byte v, byte (drop_bit 8 v), byte (drop_bit 16 v), byte (drop_bit 24 v),
      byte (drop_bit 32 v), byte (drop_bit 40 v), byte (drop_bit 48 v), byte (drop_bit 56 v)]"

text \<open>\<open>binary.LittleEndian.PutUint64(b, v)\<close>: needs \<open>b[7]\<close>, then writes eight bytes.\<close>

definition PutUint64 :: "heap \<Rightarrow> slice \<Rightarrow> 64 word \<Rightarrow> heap outcome" where
  "PutUint64 h b v =
     (if len b < 8 then Panic (IndexOutOfRange 7 (len b))
      else Return (store h (arr b) (off b) (le_bytes v)))"

text \<open>\<open>binary.LittleEndian.Uint64(b)\<close> on the contents of \<open>b\<close>.\<close>

definition Uint64 :: "string \<Rightarrow> 64 word outcome" where
  "Uint64 b =
     (if length b < 8 then Panic (IndexOutOfRange 7 (length b))
      else Return (of_char (b ! 0) OR push_bit 8 (of_char (b ! 1))
             OR push_bit 16 (of_char (b ! 2)) OR push_bit 24 (of_char (b ! 3))
             OR push_bit 32 (of_char (b ! 4)) OR push_bit 40 (of_char (b ! 5))
             OR push_bit 48 (of_char (b ! 6)) OR push_bit 56 (of_char (b ! 7))))"

section \<open>The frame built by DataSender\<close>

definition zbxMagic :: string where
  "zbxMagic = ''ZBXD'' @ [CHR 0x01]"

text \<open>Lines 23 to 31 of \<open>DataSender\<close>: the request frame is assembled in a buffer of its own.\<close>

definition buildFrame :: "heap \<Rightarrow> slice \<Rightarrow> (heap \<times> slice) outcome" where
  "buildFrame h0 data =
     (let (h1, zbxHeader) = bytes_of_string h0 zbxMagic;
          zbxHeaderLength = len zbxHeader + 8;
          dataLength = len data;
          (h2, made) = make_bytes h1 (zbxHeaderLength + dataLength)
      in bind_outcome (reslice_to made 0) (\<lambda>msgArray0.
         let (h3, msgArray1) = append_slice h2 msgArray0 zbxHeader;
             (h4, byteBuff) = make_bytes h3 8
         in bind_outcome (PutUint64 h4 byteBuff (word_of_nat dataLength)) (\<lambda>h5.
            let (h6, msgArray2) = append_slice h5 msgArray1 byteBuff;
                (h7, msgArray3) = append_slice h6 msgArray2 data
            in Return (h7, msgArray3))))"

section \<open>Configuration\<close>

record server =
  Ip :: string
  Port :: int
  Version :: string

record agent =
  Port :: int
  LogLevel :: string
  Logfile :: string

record tomlConfig =
  Server :: server
  Agent :: agent

section \<open>The world outside the program\<close>

text \<open>
  What \<open>io.Copy(&buf, conn)\<close> leaves behind: the bytes accumulated in the buffer, the
  error it returns (\<open>nil\<close> when the peer closed the stream cleanly), and the bytes that
  the buffer's backing array holds behind its contents. \<open>bytes.Buffer\<close> grows by at least
  512 bytes before each read, so \<open>buf.Bytes()\<close> has spare capacity, and Go lets a slice be
  re-sliced up to its capacity.
\<close>

record copied =
  received :: string
  spare :: string
  copy_err :: "go_error option"

text \<open>
  The answers of the file system and of the network to one call of \<open>DataSender\<close>: the
  result of decoding the configuration file, of dialling, of writing the frame and of
  reading to the end of the stream. The error of closing the connection is not among
  them: the deferred function drops it.
\<close>

record world =
  toml_DecodeFile :: "string \<Rightarrow> go_error + tomlConfig"
  net_Dial :: "string \<Rightarrow> string \<Rightarrow> go_error option"
  conn_Write :: "string \<Rightarrow> go_error option"
  io_Copy :: copied

datatype json_error = UnsupportedTypeError | UnsupportedValueError

datatype event =
    EvDecodeFile string
  | EvLogPanic go_error
  | EvPrintln string
  | EvDial string string
  | EvWrite string
  | EvLogPrintln string "go_error option"
  | EvCopy
  | EvClose
  | EvLogJson json_error
  | EvPrintJson json_error
  | EvPrintError go_error
  | EvSend string

section \<open>Config\<close>

definition filePath :: string where
  "filePath = ''D:/Development/GolangProject/zabbix_agent/bin/conf/conf.tml''"

definition Config :: "world \<Rightarrow> tomlConfig outcome \<times> event list" where
  "Config w =
     (case toml_DecodeFile w filePath of
        Inl err \<Rightarrow> (Panic (PanicLog err), [EvDecodeFile filePath, EvLogPanic err])
      | Inr config \<Rightarrow> (Return config, [EvDecodeFile filePath]))"

section \<open>strconv.Itoa\<close>

text \<open>The decimal digits of a number that is not negative.\<close>

function digits :: "int \<Rightarrow> string" where
  "digits n =
     (if n < 10 then [''0123456789'' ! nat n]
      else digits (n div 10) @ [''0123456789'' ! nat (n mod 10)])"
  by pat_completeness auto
termination
  by (relation "measure nat") auto

declare digits.simps [simp del]

definition Itoa :: "int \<Rightarrow> string" where
  "Itoa i = (if i < 0 then CHR ''-'' # digits (- i) else digits i)"

section \<open>DataSender\<close>

text \<open>
  The two copies of \<open>DataSender\<close> differ only in the message strings they return and log
  (one set is English, the other Chinese in UTF-8); the function takes them as a record.
\<close>

record messages =
  connectMsg :: string
  sendMsg :: string
  readMsg :: string
  headerMsg :: string

definition messages_en :: messages where
  "messages_en =
     \<lparr>connectMsg = ''connect error:'', sendMsg = ''send data error:'',
      readMsg = ''error data'', headerMsg = ''zabbix server:Invalid data header''\<rparr>"

definition messages_zh :: messages where
  "messages_zh =
     \<lparr>connectMsg = [CHR 0xE8, CHR 0xBF, CHR 0x9E, CHR 0xE6, CHR 0x8E, CHR 0xA5,
                     CHR 0xE5, CHR 0xA4, CHR 0xB1, CHR 0xE8, CHR 0xB4, CHR 0xA5],
      sendMsg = [CHR 0xE5, CHR 0x8F, CHR 0x91, CHR 0xE9, CHR 0x80, CHR 0x81,
                 CHR 0xE6, CHR 0x95, CHR 0xB0, CHR 0xE6, CHR 0x8D, CHR 0xAE,
                 CHR 0xE5, CHR 0xA4, CHR 0xB1, CHR 0xE8, CHR 0xB4, CHR 0xA5],
      readMsg = ''error data'',
      headerMsg = ''zabbix server: '' @
                [CHR 0xE6, CHR 0x97, CHR 0xA0, CHR 0xE6, CHR 0x95, CHR 0x88,
                 CHR 0xE5, CHR 0x93, CHR 0x8D, CHR 0xE5, CHR 0xBA, CHR 0x94,
                 CHR 0xE6, CHR 0x95, CHR 0xB0, CHR 0xE6, CHR 0x8D, CHR 0xAE,
                 CHR 0xE5, CHR 0xA4, CHR 0xB4]\<rparr>"

text \<open>\<open>buf.Bytes()[:n]\<close>: a slice expression on a byte slice is checked against its capacity.\<close>

definition Bytes_to :: "copied \<Rightarrow> nat \<Rightarrow> string outcome" where
  "Bytes_to buf n =
     (if n \<le> length (received buf) + length (spare buf)
      then Return (take n (received buf @ spare buf))
      else Panic (SliceBoundsCap n (length (received buf) + length (spare buf))))"

text \<open>\<open>s[n:]\<close> on a string: checked against its length.\<close>

definition string_from :: "string \<Rightarrow> nat \<Rightarrow> string outcome" where
  "string_from s n = (if n \<le> length s then Return (drop n s) else Panic (SliceBoundsLen n (length s)))"

text \<open>Lines 43 to 53: reading the response and checking its envelope.\<close>

definition readResponse :: "messages \<Rightarrow> world \<Rightarrow> (string \<times> go_error option) outcome \<times> event list" where
  "readResponse m w =
     (let buf = io_Copy w; err = copy_err buf in
      if err \<noteq> None
      then (Return (readMsg m, err), [EvCopy, EvLogPrintln (readMsg m) err])
      else (case Bytes_to buf 5 of
              Panic p \<Rightarrow> (Panic p, [EvCopy])
            | Return head \<Rightarrow>
                if head \<noteq> zbxMagic
                then (Return (headerMsg m, err), [EvCopy, EvLogPrintln (headerMsg m) err])
                else (case string_from (received buf) 13 of
                        Panic p \<Rightarrow> (Panic p, [EvCopy])
                      | Return payload \<Rightarrow> (Return (payload, None), [EvCopy]))))"

text \<open>The local \<open>address\<close> of line 16.\<close>

definition address :: "tomlConfig \<Rightarrow> string" where
  "address conf = Ip (Server conf) @ '':'' @ Itoa (server.Port (Server conf))"

text \<open>
  The whole call. The deferred close is registered at line 37, after the write has
  succeeded; from there on it runs once when the function leaves, by a return or by a
  panic, and its own error is dropped.
\<close>

definition DataSender ::
  "messages \<Rightarrow> world \<Rightarrow> heap \<Rightarrow> slice \<Rightarrow> (string \<times> go_error option) outcome \<times> event list" where
  "DataSender m w h data =
     (case Config w of
        (Panic p, t0) \<Rightarrow> (Panic p, t0)
      | (Return conf, t0) \<Rightarrow>
          let t1 = t0 @ [EvPrintln (address conf), EvDial ''tcp'' (address conf)]
          in (case net_Dial w ''tcp'' (address conf) of
                Some err \<Rightarrow> (Return (connectMsg m, Some err), t1)
              | None \<Rightarrow>
                  (case buildFrame h data of
                     Panic p \<Rightarrow> (Panic p, t1)
                   | Return (h', msgArray) \<Rightarrow>
                       let frame = slice_bytes h' msgArray;
                           t2 = t1 @ [EvWrite frame]
                       in (case conn_Write w frame of
                             Some err \<Rightarrow>
                               (Return (sendMsg m, Some err),
                                t2 @ [EvLogPrintln (sendMsg m) (Some err)])
                           | None \<Rightarrow>
                               (let (res, t3) = readResponse m w
                                in (res, t2 @ t3 @ [EvClose]))))))"

section \<open>The metric batch\<close>

text \<open>
  The \<open>Value\<close> field has type \<open>interface{}\<close>: it may hold a value of any Go type. The cases
  kept here are \<open>nil\<close>, a \<open>float64\<close> (its 64 bits), an \<open>int\<close>, a \<open>string\<close>, a \<open>bool\<close>, and a
  channel as the representative of the types that JSON cannot carry.
\<close>

datatype go_value = VNil | VFloat64 "64 word" | VInt "64 word" | VString string | VBool bool | VChan

record MinorData =
  Host :: string
  Key :: string
  Value :: go_value
  Clock :: "32 word"

text \<open>A slice of records is \<open>None\<close> when it is the \<open>nil\<close> slice.\<close>

record MajorData =
  Request :: string
  Data :: "MinorData list option"

section \<open>encoding/json\<close>

text \<open>
  Two details of the string escaping differ between Go releases, and the repository names
  none: backspace and form feed are written \<open>\u0008\<close> and \<open>\u000c\<close> by the older releases
  and as the two-character escapes by the newer ones; a byte that is not UTF-8 is written
  as the six characters of the escape \<open>\ufffd\<close> by some and as the three bytes of U+FFFD by
  others. Both are parameters of the encoder.
\<close>

record json_release =
  shortEscapes :: bool
  rawReplacement :: bool

definition RuneError :: nat where
  "RuneError = 0xFFFD"

text \<open>\<open>utf8.DecodeRuneInString\<close>: the code point at the head of the string and its width.\<close>

fun DecodeRuneInString :: "string \<Rightarrow> nat \<times> nat" where
  "DecodeRuneInString [] = (RuneError, 0)"
| "DecodeRuneInString (c0 # s) =
     (let s0 = (of_char c0 :: nat) in
      if s0 < 0x80 then (s0, 1)
      else if s0 < 0xC2 \<or> 0xF4 < s0 then (RuneError, 1)
      else
        let sz = (if s0 < 0xE0 then 2 else if s0 < 0xF0 then 3 else 4 :: nat);
            lo = (if s0 = 0xE0 then 0xA0 else if s0 = 0xF0 then 0x90 else 0x80 :: nat);
            hi = (if s0 = 0xED then 0x9F else if s0 = 0xF4 then 0x8F else 0xBF :: nat)
        in if length (c0 # s) < sz then (RuneError, 1)
           else
             let s1 = (of_char (s ! 0) :: nat) in
             if s1 < lo \<or> hi < s1 then (RuneError, 1)
             else if sz \<le> 2 then ((s0 mod 32) * 64 + s1 mod 64, 2)
             else
               let s2 = (of_char (s ! 1) :: nat) in
               if s2 < 0x80 \<or> 0xBF < s2 then (RuneError, 1)
               else if sz \<le> 3 then ((s0 mod 16) * 4096 + (s1 mod 64) * 64 + s2 mod 64, 3)
               else
                 let s3 = (of_char (s ! 2) :: nat) in
                 if s3 < 0x80 \<or> 0xBF < s3 then (RuneError, 1)
                 else ((s0 mod 8) * 262144 + (s1 mod 64) * 4096 + (s2 mod 64) * 64 + s3 mod 64, 4))"

definition hex :: string where
  "hex = ''0123456789abcdef''"

text \<open>
  \<open>htmlSafeSet\<close>: the ASCII characters written as they are, which is every one from the
  space on except the double quote, the ampersand, the angle brackets and the backslash.
\<close>

definition htmlSafeSet :: "char \<Rightarrow> bool" where
  "htmlSafeSet b \<longleftrightarrow>
     0x20 \<le> (of_char b :: nat) \<and> b \<noteq> CHR 0x22 \<and> b \<noteq> CHR ''&'' \<and> b \<noteq> CHR ''<''
       \<and> b \<noteq> CHR ''>'' \<and> b \<noteq> CHR 0x5C"

text \<open>The escape of one ASCII character outside \<open>htmlSafeSet\<close>.\<close>

definition escapeByte :: "json_release \<Rightarrow> char \<Rightarrow> string" where
  "escapeByte rel b =
     (if b = CHR 0x5C \<or> b = CHR 0x22 then [CHR 0x5C, b]
      else if b = CHR 0x08 \<and> shortEscapes rel then [CHR 0x5C, CHR ''b'']
      else if b = CHR 0x0C \<and> shortEscapes rel then [CHR 0x5C, CHR ''f'']
      else if b = CHR 0x0A then [CHR 0x5C, CHR ''n'']
      else if b = CHR 0x0D then [CHR 0x5C, CHR ''r'']
      else if b = CHR 0x09 then [CHR 0x5C, CHR ''t'']
      else [CHR 0x5C, CHR ''u'', CHR ''0'', CHR ''0'',
            hex ! ((of_char b :: nat) div 16), hex ! ((of_char b :: nat) mod 16)])"

definition replacement :: "json_release \<Rightarrow> string" where
  "replacement rel =
     (if rawReplacement rel then [CHR 0xEF, CHR 0xBF, CHR 0xBD] else CHR 0x5C # ''ufffd'')"

fun escapeString :: "json_release \<Rightarrow> string \<Rightarrow> string" where
  "escapeString rel [] = []"
| "escapeString rel (b # src) =
     (if (of_char b :: nat) < 0x80
      then (if htmlSafeSet b then b # escapeString rel src
            else escapeByte rel b @ escapeString rel src)
      else
        (let (c, size) = DecodeRuneInString (b # src) in
         if c = RuneError \<and> size = 1 then replacement rel @ escapeString rel src
         else if c = 0x2028 \<or> c = 0x2029
         then CHR 0x5C # ''u202'' @ [hex ! (c mod 16)] @ escapeString rel (drop (size - 1) src)
         else take size (b # src) @ escapeString rel (drop (size - 1) src)))"

text \<open>\<open>appendString\<close> with \<open>escapeHTML\<close> set, as \<open>json.Marshal\<close> calls it.\<close>

definition appendString :: "json_release \<Rightarrow> string \<Rightarrow> string" where
  "appendString rel src = CHR 0x22 # escapeString rel src @ [CHR 0x22]"

subsection \<open>Floating-point numbers\<close>

text \<open>
  The three fields of a \<open>float64\<close>: sign, biased exponent, fraction; and the number it
  stands for, \<open>mant * 2 ^ e\<close>, with the hidden bit added unless the number is subnormal.
\<close>

definition float64_fields :: "64 word \<Rightarrow> bool \<times> int \<times> int" where
  "float64_fields f = (bit f 63, uint (drop_bit 52 f AND 0x7FF), uint (f AND 0xFFFFFFFFFFFFF))"

definition float64_mant_exp :: "int \<Rightarrow> int \<Rightarrow> int \<times> int" where
  "float64_mant_exp expo frac =
     (if expo = 0 then (frac, - 1074) else (frac + 2 ^ 52, expo - 1075))"

text \<open>
  The number and the two bounds of \<open>strconv\<close>'s \<open>roundShortest\<close>, as numerators over one
  denominator: the upper bound lies halfway to the next \<open>float64\<close> above, the lower bound
  halfway to the next one below, which is nearer when the mantissa is the smallest of its
  exponent. Every decimal between the bounds reads back as the number itself.
\<close>

definition float64_bounds :: "int \<Rightarrow> int \<Rightarrow> int \<Rightarrow> int \<times> int \<times> int \<times> int" where
  "float64_bounds expo mant e =
     (let lower = (if 2 ^ 52 < mant \<or> expo \<le> 1 then 4 * mant - 2 else 4 * mant - 1);
          upper = 4 * mant + 2
      in if 2 \<le> e
         then (4 * mant * 2 ^ nat (e - 2), lower * 2 ^ nat (e - 2), upper * 2 ^ nat (e - 2), 1)
         else (4 * mant, lower, upper, 2 ^ nat (2 - e)))"

text \<open>
  The loop of \<open>roundShortest\<close>, one decimal position \<open>p\<close> after the other from the leading
  digit down. At position \<open>p\<close> the number \<open>v / q\<close> cut off is \<open>t * 10 ^ p\<close>. Cutting off is
  allowed when that is above the lower bound, rounding up when \<open>(t + 1) * 10 ^ p\<close> is below
  the upper bound; a bound itself is allowed when the mantissa is even. The first position
  that allows one of them ends the loop; when both are allowed the nearer one is taken, the
  even one at a tie. The loop is over at the last digit of the number at the latest, which
  stands at position \<open>pmin\<close> or above.
\<close>

function roundShortest_from ::
  "int \<Rightarrow> int \<Rightarrow> int \<Rightarrow> int \<Rightarrow> bool \<Rightarrow> int \<Rightarrow> int \<Rightarrow> int \<times> int" where
  "roundShortest_from v l u q inclusive pmin p =
     (let sn = (if 0 \<le> p then 1 else 10 ^ nat (- p));
          sd = (if 0 \<le> p then 10 ^ nat p else 1);
          t = (v * sn) div (q * sd);
          okdown = (l * sn < t * sd * q \<or> inclusive \<and> t * sd * q = l * sn);
          okup = ((t + 1) * sd * q < u * sn \<or> inclusive \<and> (t + 1) * sd * q = u * sn);
          rest = v * sn - t * sd * q
      in if okdown \<and> okup
         then (if sd * q < 2 * rest \<or> 2 * rest = sd * q \<and> odd t then (t + 1, p) else (t, p))
         else if okdown then (t, p)
         else if okup then (t + 1, p)
         else if p \<le> pmin then (t, p)
         else roundShortest_from v l u q inclusive pmin (p - 1))"
  by pat_completeness auto
termination
  by (relation "measure (\<lambda>(v, l, u, q, inclusive, pmin, p). nat (p - pmin))") auto

declare roundShortest_from.simps [simp del]

text \<open>The shortest decimal: its digits as a number \<open>d\<close> and the position \<open>p\<close> of its last digit.\<close>

definition roundShortest :: "int \<Rightarrow> int \<Rightarrow> int \<Rightarrow> int \<times> int" where
  "roundShortest expo mant e =
     (let (v, l, u, q) = float64_bounds expo mant e;
          start = (if u div q = 0 then - 1 else int (length (digits (u div q))) - 1)
      in roundShortest_from v l u q (even mant) (min e 0) start)"

definition trimZeros :: "string \<Rightarrow> string" where
  "trimZeros s = rev (dropWhile (\<lambda>c. c = CHR ''0'') (rev s))"

text \<open>
  The formats \<open>'f'\<close> and \<open>'e'\<close> of \<open>strconv.FormatFloat\<close> at precision \<open>-1\<close>, from the digits
  \<open>ds\<close> and the position \<open>dp\<close> of the decimal point among them.
\<close>

definition fmtF :: "string \<Rightarrow> int \<Rightarrow> string" where
  "fmtF ds dp =
     (if 0 < dp then take (nat dp) ds @ replicate (nat dp - length ds) (CHR ''0'') else ''0'')
     @ (if int (length ds) \<le> dp then []
        else CHR ''.'' # (if 0 \<le> dp then drop (nat dp) ds
                         else replicate (nat (- dp)) (CHR ''0'') @ ds))"

definition fmtE :: "string \<Rightarrow> int \<Rightarrow> string" where
  "fmtE ds dp =
     take 1 ds @ (if 1 < length ds then CHR ''.'' # drop 1 ds else [])
     @ CHR ''e'' # (if dp - 1 < 0 then CHR ''-'' else CHR ''+'')
     # (if \<bar>dp - 1\<bar> < 10 then CHR ''0'' # digits \<bar>dp - 1\<bar> else digits \<bar>dp - 1\<bar>)"

text \<open>The clean-up of \<open>e-09\<close> to \<open>e-9\<close> in the float encoder.\<close>

definition cleanExponent :: "string \<Rightarrow> string" where
  "cleanExponent b =
     (let n = length b in
      if 4 \<le> n \<and> b ! (n - 4) = CHR ''e'' \<and> b ! (n - 3) = CHR ''-'' \<and> b ! (n - 2) = CHR ''0''
      then take (n - 2) b @ [b ! (n - 1)] else b)"

text \<open>
  The float encoder of \<open>encoding/json\<close> (as of Go 1.8): an error for NaN and the
  infinities; otherwise the shortest decimal that reads back as the number, in the format
  \<open>'e'\<close> when the magnitude is below \<open>1e-6\<close> or at least \<open>1e21\<close> and in the format \<open>'f'\<close> when
  it is not. The two constants are \<open>float64\<close> values themselves, with the bits
  \<open>0x3EB0C6F7A0B5ED8D\<close> and \<open>0x444B1AE4D6E2EF50\<close>, and the magnitudes of finite \<open>float64\<close>
  values are ordered as their bits without the sign are.
\<close>

definition float64_abs :: "64 word \<Rightarrow> int" where
  "float64_abs f = uint (f AND 0x7FFFFFFFFFFFFFFF)"

definition floatEncoder :: "64 word \<Rightarrow> json_error + string" where
  "floatEncoder f =
     (let (negative, expo, frac) = float64_fields f in
      if expo = 0x7FF then Inl UnsupportedValueError
      else
        let (mant, e) = float64_mant_exp expo frac;
            sign = (if negative then ''-'' else [])
        in if mant = 0 then Inr (sign @ ''0'')
           else
             let (d, p) = roundShortest expo mant e;
                 ds = trimZeros (digits d);
                 dp = int (length (digits d)) + p
             in if float64_abs f < 0x3EB0C6F7A0B5ED8D \<or> 0x444B1AE4D6E2EF50 \<le> float64_abs f
                then Inr (sign @ cleanExponent (fmtE ds dp))
                else Inr (sign @ fmtF ds dp))"

subsection \<open>Values, structs and slices\<close>

text \<open>The encoder of an \<open>interface{}\<close> value.\<close>

fun interfaceEncoder :: "json_release \<Rightarrow> go_value \<Rightarrow> json_error + string" where
  "interfaceEncoder rel VNil = Inr ''null''"
| "interfaceEncoder rel (VFloat64 f) = floatEncoder f"
| "interfaceEncoder rel (VInt i) = Inr (Itoa (sint i))"
| "interfaceEncoder rel (VString s) = Inr (appendString rel s)"
| "interfaceEncoder rel (VBool b) = Inr (if b then ''true'' else ''false'')"
| "interfaceEncoder rel VChan = Inl UnsupportedTypeError"

text \<open>
  The struct encoder: the fields in declaration order under their JSON names, the first
  behind an opening brace and each later one behind a comma.
\<close>

fun structFields :: "char \<Rightarrow> (string \<times> (json_error + string)) list \<Rightarrow> json_error + string" where
  "structFields next [] = Inr (if next = CHR ''{'' then ''{}'' else ''}'')"
| "structFields next ((name, enc) # fs) =
     (case enc of
        Inl e \<Rightarrow> Inl e
      | Inr v \<Rightarrow>
          (case structFields (CHR '','') fs of
             Inl e \<Rightarrow> Inl e
           | Inr rest \<Rightarrow> Inr (next # CHR 0x22 # name @ CHR 0x22 # CHR '':'' # v @ rest)))"

definition structEncoder :: "(string \<times> (json_error + string)) list \<Rightarrow> json_error + string" where
  "structEncoder fs = structFields (CHR ''{'') fs"

text \<open>The array encoder: the elements in order, a comma before each but the first.\<close>

fun arrayElems :: "nat \<Rightarrow> (json_error + string) list \<Rightarrow> json_error + string" where
  "arrayElems i [] = Inr '']''"
| "arrayElems i (enc # es) =
     (case enc of
        Inl e \<Rightarrow> Inl e
      | Inr v \<Rightarrow>
          (case arrayElems (Suc i) es of
             Inl e \<Rightarrow> Inl e
           | Inr rest \<Rightarrow> Inr ((if i > 0 then '','' else []) @ v @ rest)))"

definition sliceEncoder :: "(json_error + string) list option \<Rightarrow> json_error + string" where
  "sliceEncoder es =
     (case es of
        None \<Rightarrow> Inr ''null''
      | Some xs \<Rightarrow> (case arrayElems 0 xs of Inl e \<Rightarrow> Inl e | Inr rest \<Rightarrow> Inr (CHR ''['' # rest)))"

text \<open>The two structs with the JSON names of their tags.\<close>

definition MinorData_json :: "json_release \<Rightarrow> MinorData \<Rightarrow> json_error + string" where
  "MinorData_json rel r =
     structEncoder
       [(''host'', Inr (appendString rel (Host r))),
        (''key'', Inr (appendString rel (Key r))),
        (''value'', interfaceEncoder rel (Value r)),
        (''clock'', Inr (Itoa (sint (Clock r))))]"

definition Marshal :: "json_release \<Rightarrow> MajorData \<Rightarrow> json_error + string" where
  "Marshal rel d =
     structEncoder
       [(''request'', Inr (appendString rel (Request d))),
        (''data'', sliceEncoder (map_option (map (MinorData_json rel)) (Data d)))]"

section \<open>activeCheck\<close>

text \<open>
  The batch built at lines 36 to 50. The constant \<open>99.87\<close> is stored in an \<open>interface{}\<close>,
  hence as the \<open>float64\<close> nearest to it, whose bits are \<open>0x4058F7AE147AE148\<close>.
\<close>

definition activeCheck_data :: MajorData where
  \<open>activeCheck_data =
     \<lparr>Request = ''agent data'',
      Data = Some [\<lparr>Host = ''host_test'',
                    Key = ''key_test["{$URL}","github","{$HOST}","space_use"]'',
                    Value = VFloat64 0x4058F7AE147AE148,
                    Clock = 1566481943\<rparr>]\<rparr>\<close>

text \<open>
  The payload \<open>activeCheck\<close> hands to \<open>DataSender\<close>: when \<open>json.Marshal\<close> fails, the error is
  printed and the call goes on with the empty payload.
\<close>

definition activeCheck_payload :: "json_release \<Rightarrow> string" where
  "activeCheck_payload rel =
     (case Marshal rel activeCheck_data of Inl err \<Rightarrow> [] | Inr jsonBytes \<Rightarrow> jsonBytes)"

definition activeCheck ::
  "json_release \<Rightarrow> messages \<Rightarrow> world \<Rightarrow> heap \<Rightarrow> unit outcome \<times> event list" where
  "activeCheck rel m w h =
     (let t0 = (case Marshal rel activeCheck_data of
                  Inl err \<Rightarrow> [EvLogJson err, EvPrintJson err]
                | Inr jsonBytes \<Rightarrow> []);
          (h', data2) = bytes_of_string h (activeCheck_payload rel)
      in case DataSender m w h' data2 of
           (Panic p, t) \<Rightarrow> (Panic p, t0 @ t)
         | (Return (res, None), t) \<Rightarrow> (Return (), t0 @ t @ [EvSend res])
         | (Return (res, Some err), t) \<Rightarrow> (Return (), t0 @ t @ [EvPrintError err, EvSend res]))"

section \<open>The request payload as the specification writes it\<close>

text \<open>
  The schema of the specification: an object with the members \<open>request\<close> and \<open>data\<close>, the
  latter an array of objects with the members \<open>host\<close>, \<open>key\<close>, \<open>value\<close> and \<open>clock\<close>, in this
  order, the records in the order of the batch. The rendered member values are taken as
  they come.
\<close>

fun spec_join :: "string list \<Rightarrow> string" where
  "spec_join [] = []"
| "spec_join [x] = x"
| "spec_join (x # y # ys) = x @ '','' @ spec_join (y # ys)"

definition spec_record_json :: "string \<Rightarrow> string \<Rightarrow> string \<Rightarrow> string \<Rightarrow> string" where
  \<open>spec_record_json host key val clock =
     ''{"host":'' @ host @ '',"key":'' @ key @ '',"value":'' @ val @ '',"clock":'' @ clock @ ''}''\<close>

definition spec_batch_json :: "string \<Rightarrow> string list \<Rightarrow> string" where
  \<open>spec_batch_json request records =
     ''{"request":'' @ request @ '',"data":['' @ spec_join records @ '']}''\<close>

section \<open>The server address as the specification writes it\<close>

text \<open>
  The specification's \<open>ServerAddress\<close>: a host or IP string plus a port in the range from 1
  to 65535.
\<close>

definition spec_ServerAddress :: "tomlConfig \<Rightarrow> bool" where
  "spec_ServerAddress conf \<longleftrightarrow>
     1 \<le> server.Port (Server conf) \<and> server.Port (Server conf) \<le> 65535"

section \<open>Reading the trace\<close>

fun written :: "event list \<Rightarrow> string list" where
  "written [] = []"
| "written (EvWrite f # t) = f # written t"
| "written (e # t) = written t"

fun dialled :: "event list \<Rightarrow> (string \<times> string) list" where
  "dialled [] = []"
| "dialled (EvDial n a # t) = (n, a) # dialled t"
| "dialled (e # t) = dialled t"

definition closes :: "event list \<Rightarrow> nat" where
  "closes t = count_list t EvClose"

section \<open>Example inputs\<close>

definition example_conf :: tomlConfig where
  "example_conf =
     \<lparr>Server = \<lparr>Ip = ''127.0.0.1'', Port = 10051, Version = ''4.0''\<rparr>,
      Agent = \<lparr>Port = 10050, LogLevel = ''debug'', Logfile = ''agent.log''\<rparr>\<rparr>"

text \<open>What the decoder leaves in the struct when the file sets nothing: every field zero.\<close>

definition zero_conf :: tomlConfig where
  "zero_conf =
     \<lparr>Server = \<lparr>Ip = [], Port = 0, Version = []\<rparr>,
      Agent = \<lparr>Port = 0, LogLevel = [], Logfile = []\<rparr>\<rparr>"

definition example_world :: "go_error option \<Rightarrow> copied \<Rightarrow> world" where
  "example_world werr buf =
     \<lparr>toml_DecodeFile = (\<lambda>path. Inr example_conf), net_Dial = (\<lambda>network addr. None),
      conn_Write = (\<lambda>frame. werr), io_Copy = buf\<rparr>"

definition example_heap :: heap where
  "example_heap = [''{}'']"

definition example_data :: slice where
  "example_data = \<lparr>arr = 0, off = 0, len = 2, cap = 2\<rparr>"

section \<open>Properties of the frame\<close>

lemma length_le_bytes: "length (le_bytes v) = 8"
  by (simp add: le_bytes_def)

lemma length_zbxMagic: "length zbxMagic = 5"
  by (simp add: zbxMagic_def)

lemma length_slice_bytes: "valid_slice h s \<Longrightarrow> length (slice_bytes h s) = len s"
  by (auto simp: valid_slice_def slice_bytes_def)

lemma buildFrame_closed:
  assumes "valid_slice h data"
  shows "buildFrame h data =
     Return (h @ [zbxMagic, zbxMagic @ le_bytes (word_of_nat (len data)) @ slice_bytes h data,
                  le_bytes (word_of_nat (len data))],
             \<lparr>arr = Suc (length h), off = 0, len = 13 + len data, cap = 13 + len data\<rparr>)"
proof -
  have l: "length (slice_bytes h data) = len data"
    using assms by (rule length_slice_bytes)
  have a: "arr data < length h"
    using assms by (simp add: valid_slice_def)
  show ?thesis
    using a l
    by (simp add: buildFrame_def bytes_of_string_def make_bytes_def reslice_to_def
      append_slice_def PutUint64_def store_def slice_bytes_def zbxMagic_def length_le_bytes
      nth_append Let_def list_update_append replicate_add)
qed

lemma buildFrame_bytes:
  assumes "valid_slice h data" and "buildFrame h data = Return (h', msgArray)"
  shows "slice_bytes h' msgArray = zbxMagic @ le_bytes (word_of_nat (len data)) @ slice_bytes h data"
proof -
  have "length (slice_bytes h data) = len data"
    using assms(1) by (rule length_slice_bytes)
  then show ?thesis
    using assms(2) unfolding buildFrame_closed [OF assms(1)]
    by (auto simp: slice_bytes_def nth_append length_le_bytes length_zbxMagic)
qed

lemma of_char_byte: "(of_char (byte w) :: 64 word) = take_bit 8 w"
proof -
  have "(of_char (byte w) :: 64 word) = of_nat (of_char (byte w))"
    by (simp only: of_nat_of_char)
  also have "\<dots> = of_nat (take_bit 8 (unat w))"
    by (simp add: byte_def take_bit_eq_mod)
  also have "\<dots> = take_bit 8 w"
    by (simp add: take_bit_of_nat [symmetric])
  finally show ?thesis .
qed

lemma Uint64_le_bytes: "Uint64 (le_bytes v) = Return v"
proof -
  have "take_bit 8 v OR push_bit 8 (take_bit 8 (drop_bit 8 v))
        OR push_bit 16 (take_bit 8 (drop_bit 16 v)) OR push_bit 24 (take_bit 8 (drop_bit 24 v))
        OR push_bit 32 (take_bit 8 (drop_bit 32 v)) OR push_bit 40 (take_bit 8 (drop_bit 40 v))
        OR push_bit 48 (take_bit 8 (drop_bit 48 v)) OR push_bit 56 (take_bit 8 (drop_bit 56 v)) = v"
  proof (rule bit_word_eqI)
    fix n :: nat
    assume "n < LENGTH(64)"
    then consider "n < 8" | "8 \<le> n" "n < 16" | "16 \<le> n" "n < 24" | "24 \<le> n" "n < 32"
      | "32 \<le> n" "n < 40" | "40 \<le> n" "n < 48" | "48 \<le> n" "n < 56" | "56 \<le> n" "n < 64"
      by fastforce
    then show "bit (take_bit 8 v OR push_bit 8 (take_bit 8 (drop_bit 8 v))
        OR push_bit 16 (take_bit 8 (drop_bit 16 v)) OR push_bit 24 (take_bit 8 (drop_bit 24 v))
        OR push_bit 32 (take_bit 8 (drop_bit 32 v)) OR push_bit 40 (take_bit 8 (drop_bit 40 v))
        OR push_bit 48 (take_bit 8 (drop_bit 48 v)) OR push_bit 56 (take_bit 8 (drop_bit 56 v))) n
        \<longleftrightarrow> bit v n"
      by cases (auto simp add: bit_simps)
  qed
  then show ?thesis
    by (simp add: Uint64_def le_bytes_def of_char_byte)
qed

lemma unat_dataLength: "n < 2 ^ 63 \<Longrightarrow> unat (word_of_nat n :: 64 word) = n"
  by (simp add: unat_of_nat)

lemma DataSender_dialled:
  assumes "valid_slice h data"
    and "toml_DecodeFile w filePath = Inr conf"
    and "net_Dial w ''tcp'' (address conf) = None"
  shows "DataSender m w h data =
     (let frame = zbxMagic @ le_bytes (word_of_nat (len data)) @ slice_bytes h data;
          t2 = [EvDecodeFile filePath, EvPrintln (address conf), EvDial ''tcp'' (address conf),
                EvWrite frame]
      in case conn_Write w frame of
           Some err \<Rightarrow> (Return (sendMsg m, Some err), t2 @ [EvLogPrintln (sendMsg m) (Some err)])
         | None \<Rightarrow> (fst (readResponse m w), t2 @ snd (readResponse m w) @ [EvClose]))"
proof -
  obtain h' msgArray where b: "buildFrame h data = Return (h', msgArray)"
    using buildFrame_closed [OF assms(1)] by blast
  have f: "slice_bytes h' msgArray = zbxMagic @ le_bytes (word_of_nat (len data)) @ slice_bytes h data"
    using assms(1) b by (rule buildFrame_bytes)
  show ?thesis
    using assms(2,3) b f
    by (simp add: DataSender_def Config_def Let_def split: option.split prod.split)
qed


lemma written_append: "written (t @ u) = written t @ written u"
  by (induction t rule: written.induct) simp_all

lemma written_readResponse: "written (snd (readResponse m w)) = []"
  by (simp add: readResponse_def Let_def split: outcome.split)

lemma address_example: "address example_conf = ''127.0.0.1:10051''"
  by (simp add: address_def example_conf_def Itoa_def digits.simps)

lemma valid_example: "valid_slice example_heap example_data"
  by (simp add: valid_slice_def example_heap_def example_data_def)

text \<open>
  Claim C4. Whenever the dial succeeds, \<open>DataSender\<close> writes exactly one frame: the five
  bytes \<open>ZBXD\<close>, \<open>0x01\<close>, then the payload length as eight little-endian bytes, then the
  payload bytes unchanged. Read back as an unsigned 64-bit little-endian integer, the
  eight bytes at offset 5 give the byte length of the payload that follows them.
\<close>

theorem DataSender_frame:
  assumes "valid_slice h data"
    and "toml_DecodeFile w filePath = Inr conf"
    and "net_Dial w ''tcp'' (address conf) = None"
  shows "\<exists>frame. written (snd (DataSender m w h data)) = [frame]
     \<and> frame = zbxMagic @ le_bytes (word_of_nat (length (slice_bytes h data))) @ slice_bytes h data
     \<and> take 5 frame = ''ZBXD'' @ [CHR 0x01]
     \<and> bind_outcome (Uint64 (take 8 (drop 5 frame))) (\<lambda>v. Return (unat v))
           = Return (length (slice_bytes h data))
     \<and> drop 13 frame = slice_bytes h data"
proof -
  let ?d = "slice_bytes h data"
  let ?frame = "zbxMagic @ le_bytes (word_of_nat (length ?d)) @ ?d"
  have n: "length ?d = len data"
    using assms(1) by (rule length_slice_bytes)
  have "len data < 2 ^ 63"
    using assms(1) by (simp add: valid_slice_def)
  then have u: "unat (word_of_nat (length ?d) :: 64 word) = length ?d"
    using n by (simp add: unat_dataLength)
  have "written (snd (DataSender m w h data)) = [?frame]"
    unfolding DataSender_dialled [OF assms] n
    by (simp add: Let_def written_append written_readResponse split: option.split)
  moreover have "take 5 ?frame = ''ZBXD'' @ [CHR 0x01]"
    by (simp add: zbxMagic_def)
  moreover have "take 8 (drop 5 ?frame) = le_bytes (word_of_nat (length ?d))"
    by (simp add: length_zbxMagic length_le_bytes)
  then have "bind_outcome (Uint64 (take 8 (drop 5 ?frame))) (\<lambda>v. Return (unat v))
      = Return (length ?d)"
    by (simp only: Uint64_le_bytes bind_outcome.simps u)
  moreover have "drop 13 ?frame = ?d"
    by (simp add: length_zbxMagic length_le_bytes)
  ultimately show ?thesis
    by blast
qed

theorem DataSender_frame_witness:
  "valid_slice example_heap example_data
   \<and> toml_DecodeFile (example_world None \<lparr>received = [], spare = [], copy_err = None\<rparr>) filePath
       = Inr example_conf
   \<and> net_Dial (example_world None \<lparr>received = [], spare = [], copy_err = None\<rparr>) ''tcp''
       (address example_conf) = None
   \<and> written (snd (DataSender messages_en
         (example_world None \<lparr>received = [], spare = [], copy_err = None\<rparr>)
         example_heap example_data))
       = [''ZBXD'' @ [CHR 0x01, CHR 0x02, CHR 0x00, CHR 0x00, CHR 0x00, CHR 0x00, CHR 0x00,
                      CHR 0x00, CHR 0x00] @ ''{}'']"
proof -
  let ?w = "example_world None \<lparr>received = [], spare = [], copy_err = None\<rparr>"
  have v: "valid_slice example_heap example_data"
    by (rule valid_example)
  have c: "toml_DecodeFile ?w filePath = Inr example_conf"
    by (simp add: example_world_def)
  have d: "net_Dial ?w ''tcp'' (address example_conf) = None"
    by (simp add: example_world_def)
  have b: "slice_bytes example_heap example_data = ''{}''"
    by (simp add: slice_bytes_def example_heap_def example_data_def)
  have l: "le_bytes 2 = [CHR 0x02, CHR 0x00, CHR 0x00, CHR 0x00, CHR 0x00, CHR 0x00, CHR 0x00, CHR 0x00]"
    by code_simp
  show ?thesis
    using DataSender_frame [OF v c d, of messages_en] v c d
    by (simp add: b l zbxMagic_def)
qed

text \<open>
  Claim C9. The frame built from \<open>data\<close> is \<open>13 + len(data)\<close> bytes long and lives in an array
  allocated by the construction itself; every array that existed before, the one behind
  \<open>data\<close> among them, is left as it was.
\<close>

theorem buildFrame_frame_effect:
  assumes "valid_slice h data"
  shows "\<exists>h' msgArray. buildFrame h data = Return (h', msgArray)
     \<and> len msgArray = 13 + len data
     \<and> length (slice_bytes h' msgArray) = 13 + len data
     \<and> length h \<le> arr msgArray
     \<and> take (length h) h' = h
     \<and> slice_bytes h' data = slice_bytes h data"
proof -
  have l: "length (slice_bytes h data) = len data"
    using assms by (rule length_slice_bytes)
  have a: "arr data < length h"
    using assms by (simp add: valid_slice_def)
  show ?thesis
    unfolding buildFrame_closed [OF assms]
    using a l by (simp add: slice_bytes_def nth_append length_zbxMagic length_le_bytes)
qed

theorem buildFrame_frame_effect_witness:
  "valid_slice example_heap example_data
   \<and> (\<exists>h' msgArray. buildFrame example_heap example_data = Return (h', msgArray)
        \<and> len msgArray = 15 \<and> length (slice_bytes h' msgArray) = 15 \<and> 1 \<le> arr msgArray
        \<and> take 1 h' = [''{}''] \<and> slice_bytes h' example_data = ''{}'')"
proof -
  have b: "slice_bytes example_heap example_data = ''{}''"
    by (simp add: slice_bytes_def example_heap_def example_data_def)
  have "len example_data = 2" "length example_heap = 1" "example_heap = [''{}'']"
    by (simp_all add: example_data_def example_heap_def)
  then show ?thesis
    using buildFrame_frame_effect [OF valid_example] valid_example b by simp
qed

section \<open>The reading phase\<close>

lemma DataSender_reading:
  assumes "valid_slice h data"
    and "toml_DecodeFile w filePath = Inr conf"
    and "net_Dial w ''tcp'' (address conf) = None"
    and "conn_Write w (zbxMagic @ le_bytes (word_of_nat (len data)) @ slice_bytes h data) = None"
  shows "DataSender m w h data =
     (fst (readResponse m w),
      [EvDecodeFile filePath, EvPrintln (address conf), EvDial ''tcp'' (address conf),
       EvWrite (zbxMagic @ le_bytes (word_of_nat (len data)) @ slice_bytes h data)]
      @ snd (readResponse m w) @ [EvClose])"
  unfolding DataSender_dialled [OF assms(1-3)] using assms(4) by (simp add: Let_def)

lemma DataSender_write_failed:
  assumes "valid_slice h data"
    and "toml_DecodeFile w filePath = Inr conf"
    and "net_Dial w ''tcp'' (address conf) = None"
    and "conn_Write w (zbxMagic @ le_bytes (word_of_nat (len data)) @ slice_bytes h data) = Some err"
  shows "DataSender m w h data =
     (Return (sendMsg m, Some err),
      [EvDecodeFile filePath, EvPrintln (address conf), EvDial ''tcp'' (address conf),
       EvWrite (zbxMagic @ le_bytes (word_of_nat (len data)) @ slice_bytes h data),
       EvLogPrintln (sendMsg m) (Some err)])"
  unfolding DataSender_dialled [OF assms(1-3)] using assms(4) by (simp add: Let_def)

lemma readResponse_payload:
  assumes "copy_err (io_Copy w) = None"
    and "13 \<le> length (received (io_Copy w))"
    and "take 5 (received (io_Copy w)) = zbxMagic"
  shows "readResponse m w = (Return (drop 13 (received (io_Copy w)), None), [EvCopy])"
  using assms by (simp add: readResponse_def Let_def Bytes_to_def string_from_def)

lemma readResponse_read_error:
  assumes "copy_err (io_Copy w) = Some err"
  shows "readResponse m w = (Return (readMsg m, Some err), [EvCopy, EvLogPrintln (readMsg m) (Some err)])"
  using assms by (simp add: readResponse_def Let_def)

lemma readResponse_bad_header:
  assumes "copy_err (io_Copy w) = None"
    and "Bytes_to (io_Copy w) 5 = Return head"
    and "head \<noteq> zbxMagic"
  shows "readResponse m w = (Return (headerMsg m, None), [EvCopy, EvLogPrintln (headerMsg m) None])"
  using assms by (simp add: readResponse_def Let_def)

lemma readResponse_short:
  assumes "copy_err (io_Copy w) = None"
    and "Bytes_to (io_Copy w) 5 = Return zbxMagic"
    and "length (received (io_Copy w)) < 13"
  shows "readResponse m w = (Panic (SliceBoundsLen 13 (length (received (io_Copy w)))), [EvCopy])"
  using assms by (simp add: readResponse_def Let_def string_from_def)

lemma closes_readResponse: "closes (snd (readResponse m w)) = 0"
  by (simp add: readResponse_def closes_def Let_def split: outcome.split)

lemma dialled_append: "dialled (t @ u) = dialled t @ dialled u"
  by (induction t rule: dialled.induct) simp_all

lemma dialled_readResponse: "dialled (snd (readResponse m w)) = []"
  by (simp add: readResponse_def Let_def split: outcome.split)

lemma example_world_simps:
  "toml_DecodeFile (example_world werr buf) p = Inr example_conf"
  "net_Dial (example_world werr buf) n a = None"
  "conn_Write (example_world werr buf) f = werr"
  "io_Copy (example_world werr buf) = buf"
  by (simp_all add: example_world_def)

text \<open>Once the write has succeeded the connection is closed exactly once, however the call ends.\<close>

lemma DataSender_closes_once:
  assumes "valid_slice h data"
    and "toml_DecodeFile w filePath = Inr conf"
    and "net_Dial w ''tcp'' (address conf) = None"
    and "conn_Write w (zbxMagic @ le_bytes (word_of_nat (len data)) @ slice_bytes h data) = None"
  shows "closes (snd (DataSender m w h data)) = 1"
  using closes_readResponse [of m w]
  unfolding DataSender_reading [OF assms] by (simp add: closes_def)

text \<open>
  Claim C2 asks that the connection be closed exactly once on every path after a
  successful dial. On the path of a failed write the function returns at line 35, before
  the deferred close is registered at line 37: the trace of that call has the dial and no
  close.
\<close>

theorem DataSender_write_failure_leaves_open:
  "DataSender m (example_world (Some (GoError ''write: broken pipe'')) buf) example_heap example_data =
     (Return (sendMsg m, Some (GoError ''write: broken pipe'')),
      [EvDecodeFile filePath, EvPrintln ''127.0.0.1:10051'', EvDial ''tcp'' ''127.0.0.1:10051'',
       EvWrite (zbxMagic @ le_bytes 2 @ ''{}''),
       EvLogPrintln (sendMsg m) (Some (GoError ''write: broken pipe''))])
   \<and> dialled (snd (DataSender m (example_world (Some (GoError ''write: broken pipe'')) buf)
         example_heap example_data)) = [(''tcp'', ''127.0.0.1:10051'')]
   \<and> closes (snd (DataSender m (example_world (Some (GoError ''write: broken pipe'')) buf)
         example_heap example_data)) = 0"
proof -
  let ?w = "example_world (Some (GoError ''write: broken pipe'')) buf"
  have b: "slice_bytes example_heap example_data = ''{}''" "len example_data = 2"
    by (simp_all add: slice_bytes_def example_heap_def example_data_def)
  have "DataSender m ?w example_heap example_data =
     (Return (sendMsg m, Some (GoError ''write: broken pipe'')),
      [EvDecodeFile filePath, EvPrintln ''127.0.0.1:10051'', EvDial ''tcp'' ''127.0.0.1:10051'',
       EvWrite (zbxMagic @ le_bytes 2 @ ''{}''),
       EvLogPrintln (sendMsg m) (Some (GoError ''write: broken pipe''))])"
    using DataSender_write_failed [OF valid_example, of ?w example_conf _ m]
    by (simp add: example_world_simps address_example b)
  then show ?thesis
    by (simp add: closes_def)
qed

text \<open>
  Claim C1 asks that a response shorter than 13 bytes be answered with the invalid-header
  error and without a panic. For the five-byte response that is just the magic, the header
  check passes and \<open>string(buf.Bytes())[13:]\<close> panics: slice bounds out of range.
\<close>

theorem DataSender_bare_magic_panics:
  "fst (DataSender m (example_world None \<lparr>received = ''ZBXD'' @ [CHR 0x01], spare = sp, copy_err = None\<rparr>)
         example_heap example_data) = Panic (SliceBoundsLen 13 5)"
proof -
  let ?w = "example_world None \<lparr>received = ''ZBXD'' @ [CHR 0x01], spare = sp, copy_err = None\<rparr>"
  have "readResponse m ?w = (Panic (SliceBoundsLen 13 5), [EvCopy])"
    using readResponse_short [of ?w m]
    by (simp add: example_world_simps Bytes_to_def zbxMagic_def)
  then show ?thesis
    using DataSender_reading [OF valid_example, of ?w example_conf m]
    by (simp add: example_world_simps)
qed

text \<open>
  Claim C3 asks for a non-nil error when the first five bytes of a response of at least
  13 bytes are not the magic. The function returns its variable \<open>err\<close> there, which still
  holds the \<open>nil\<close> of the successful \<open>io.Copy\<close>: the header message comes back with a nil
  error, whichever of the two message sets is in use.
\<close>

theorem DataSender_bad_header_nil_error:
  "fst (DataSender m (example_world None \<lparr>received = ''HTTP/1.1 400 Bad Request'', spare = sp, copy_err = None\<rparr>)
         example_heap example_data) = Return (headerMsg m, None)"
proof -
  let ?w = "example_world None \<lparr>received = ''HTTP/1.1 400 Bad Request'', spare = sp, copy_err = None\<rparr>"
  have "readResponse m ?w = (Return (headerMsg m, None), [EvCopy, EvLogPrintln (headerMsg m) None])"
    using readResponse_bad_header [of ?w "''HTTP/''" m]
    by (simp add: example_world_simps Bytes_to_def zbxMagic_def)
  then show ?thesis
    using DataSender_reading [OF valid_example, of ?w example_conf m]
    by (simp add: example_world_simps)
qed

text \<open>
  Claim C5. A response of at least 13 bytes that starts with the magic yields the bytes
  from offset 13 on as the payload, with a nil error. The eight bytes of the length field
  play no part: putting any other eight bytes in their place leaves the result as it is.
\<close>

theorem DataSender_payload_from_13:
  assumes "valid_slice h data"
    and "toml_DecodeFile w filePath = Inr conf"
    and "net_Dial w ''tcp'' (address conf) = None"
    and "conn_Write w (zbxMagic @ le_bytes (word_of_nat (len data)) @ slice_bytes h data) = None"
    and "copy_err (io_Copy w) = None"
    and "13 \<le> length (received (io_Copy w))"
    and "take 5 (received (io_Copy w)) = zbxMagic"
  shows "fst (DataSender m w h data) = Return (drop 13 (received (io_Copy w)), None)
     \<and> (\<forall>lengthField. length lengthField = 8 \<longrightarrow>
           fst (DataSender m
                  (w\<lparr>io_Copy := (io_Copy w)\<lparr>received := zbxMagic @ lengthField @ drop 13 (received (io_Copy w))\<rparr>\<rparr>)
                  h data)
           = fst (DataSender m w h data))"
proof -
  have one: "fst (DataSender m w h data) = Return (drop 13 (received (io_Copy w)), None)"
    unfolding DataSender_reading [OF assms(1-4)] readResponse_payload [OF assms(5-7)] by simp
  have "fst (DataSender m (w\<lparr>io_Copy := (io_Copy w)\<lparr>received := zbxMagic @ l @ drop 13 (received (io_Copy w))\<rparr>\<rparr>) h data)
      = Return (drop 13 (received (io_Copy w)), None)" if l: "length l = 8" for l
  proof -
    let ?w = "w\<lparr>io_Copy := (io_Copy w)\<lparr>received := zbxMagic @ l @ drop 13 (received (io_Copy w))\<rparr>\<rparr>"
    have r: "readResponse m ?w = (Return (drop 13 (received (io_Copy ?w)), None), [EvCopy])"
      using assms(5) l by (intro readResponse_payload) (simp_all add: length_zbxMagic)
    have "DataSender m ?w h data = (fst (readResponse m ?w),
      [EvDecodeFile filePath, EvPrintln (address conf), EvDial ''tcp'' (address conf),
       EvWrite (zbxMagic @ le_bytes (word_of_nat (len data)) @ slice_bytes h data)]
      @ snd (readResponse m ?w) @ [EvClose])"
      using assms(1-4) by (intro DataSender_reading) simp_all
    then show ?thesis
      using l by (simp add: r length_zbxMagic)
  qed
  with one show ?thesis
    by simp
qed

theorem DataSender_payload_from_13_witness:
  "valid_slice example_heap example_data
   \<and> 13 \<le> length (''ZBXD'' @ [CHR 0x01, CHR 0xFF, CHR 0xFF, CHR 0x00, CHR 0x00, CHR 0x00,
                                CHR 0x00, CHR 0x00, CHR 0x00] @ ''ok'')
   \<and> fst (DataSender messages_en
        (example_world None
           \<lparr>received = ''ZBXD'' @ [CHR 0x01, CHR 0xFF, CHR 0xFF, CHR 0x00, CHR 0x00, CHR 0x00,
                                   CHR 0x00, CHR 0x00, CHR 0x00] @ ''ok'',
            spare = [], copy_err = None\<rparr>)
        example_heap example_data) = Return (''ok'', None)
   \<and> fst (DataSender messages_en
        (example_world None
           \<lparr>received = ''ZBXD'' @ [CHR 0x01, CHR 0x02, CHR 0x00, CHR 0x00, CHR 0x00, CHR 0x00,
                                   CHR 0x00, CHR 0x00, CHR 0x00] @ ''ok'',
            spare = [], copy_err = None\<rparr>)
        example_heap example_data) = Return (''ok'', None)"
proof -
  let ?r = "''ZBXD'' @ [CHR 0x01, CHR 0xFF, CHR 0xFF, CHR 0x00, CHR 0x00, CHR 0x00,
                        CHR 0x00, CHR 0x00, CHR 0x00] @ ''ok''"
  let ?w = "example_world None \<lparr>received = ?r, spare = [], copy_err = None\<rparr>"
  have t: "fst (DataSender messages_en ?w example_heap example_data)
       = Return (drop 13 (received (io_Copy ?w)), None)
     \<and> (\<forall>lengthField. length lengthField = 8 \<longrightarrow>
           fst (DataSender messages_en
                  (?w\<lparr>io_Copy := (io_Copy ?w)\<lparr>received := zbxMagic @ lengthField @ drop 13 (received (io_Copy ?w))\<rparr>\<rparr>)
                  example_heap example_data)
           = fst (DataSender messages_en ?w example_heap example_data))"
    by (rule DataSender_payload_from_13 [OF valid_example, of ?w example_conf])
      (simp_all add: example_world_simps zbxMagic_def)
  then have a: "fst (DataSender messages_en ?w example_heap example_data) = Return (''ok'', None)"
    by (simp add: example_world_simps)
  from t have "fst (DataSender messages_en
       (?w\<lparr>io_Copy := (io_Copy ?w)\<lparr>received := zbxMagic @
           [CHR 0x02, CHR 0x00, CHR 0x00, CHR 0x00, CHR 0x00, CHR 0x00, CHR 0x00, CHR 0x00]
           @ drop 13 (received (io_Copy ?w))\<rparr>\<rparr>) example_heap example_data)
     = fst (DataSender messages_en ?w example_heap example_data)"
    by (elim conjE allE [where x = "[CHR 0x02, CHR 0x00, CHR 0x00, CHR 0x00, CHR 0x00, CHR 0x00, CHR 0x00, CHR 0x00]"])
      simp
  then have b: "fst (DataSender messages_en
        (example_world None
           \<lparr>received = ''ZBXD'' @ [CHR 0x01, CHR 0x02, CHR 0x00, CHR 0x00, CHR 0x00, CHR 0x00,
                                   CHR 0x00, CHR 0x00, CHR 0x00] @ ''ok'',
            spare = [], copy_err = None\<rparr>)
        example_heap example_data) = Return (''ok'', None)"
    using a by (simp add: example_world_def zbxMagic_def)
  show ?thesis
    using a b valid_example by simp
qed

text \<open>
  Claim C10. A response of exactly 13 bytes that starts with the magic, whatever its
  length field says, yields the empty string and a nil error.
\<close>

theorem DataSender_bare_header_empty_payload:
  assumes "valid_slice h data"
    and "toml_DecodeFile w filePath = Inr conf"
    and "net_Dial w ''tcp'' (address conf) = None"
    and "conn_Write w (zbxMagic @ le_bytes (word_of_nat (len data)) @ slice_bytes h data) = None"
    and "copy_err (io_Copy w) = None"
    and "length (received (io_Copy w)) = 13"
    and "take 5 (received (io_Copy w)) = ''ZBXD'' @ [CHR 0x01]"
  shows "fst (DataSender m w h data) = Return ([], None)"
proof -
  have "readResponse m w = (Return (drop 13 (received (io_Copy w)), None), [EvCopy])"
    using assms(5-7) by (intro readResponse_payload) (simp_all add: zbxMagic_def)
  then show ?thesis
    unfolding DataSender_reading [OF assms(1-4)] using assms(6) by simp
qed

theorem DataSender_bare_header_empty_payload_witness:
  "valid_slice example_heap example_data
   \<and> length (''ZBXD'' @ [CHR 0x01, CHR 0x2A, CHR 0x00, CHR 0x00, CHR 0x00, CHR 0x00,
                          CHR 0x00, CHR 0x00, CHR 0x00]) = 13
   \<and> fst (DataSender messages_en
        (example_world None
           \<lparr>received = ''ZBXD'' @ [CHR 0x01, CHR 0x2A, CHR 0x00, CHR 0x00, CHR 0x00, CHR 0x00,
                                   CHR 0x00, CHR 0x00, CHR 0x00],
            spare = [], copy_err = None\<rparr>)
        example_heap example_data) = Return ([], None)"
proof -
  let ?w = "example_world None
           \<lparr>received = ''ZBXD'' @ [CHR 0x01, CHR 0x2A, CHR 0x00, CHR 0x00, CHR 0x00, CHR 0x00,
                                   CHR 0x00, CHR 0x00, CHR 0x00],
            spare = [], copy_err = None\<rparr>"
  have "fst (DataSender messages_en ?w example_heap example_data) = Return ([], None)"
    by (rule DataSender_bare_header_empty_payload [OF valid_example, of ?w example_conf])
      (simp_all add: example_world_simps)
  then show ?thesis
    using valid_example by simp
qed

text \<open>
  Claim C7 says that a call which reaches the reading step hands the accumulated response
  back as the first component of its result even when it fails. It does not: after a read
  error with the three bytes \<open>ZBX\<close> accumulated, the first component is the message
  \<open>error data\<close>.
\<close>

theorem DataSender_read_error_counterexample:
  "fst (DataSender messages_en
          (example_world None
             \<lparr>received = ''ZBX'', spare = [], copy_err = Some (GoError ''read: connection reset by peer'')\<rparr>)
          example_heap example_data)
     = Return (''error data'', Some (GoError ''read: connection reset by peer''))
   \<and> fst (DataSender messages_en
          (example_world None
             \<lparr>received = ''ZBX'', spare = [], copy_err = Some (GoError ''read: connection reset by peer'')\<rparr>)
          example_heap example_data)
     \<noteq> Return (''ZBX'', Some (GoError ''read: connection reset by peer''))"
proof -
  let ?w = "example_world None
             \<lparr>received = ''ZBX'', spare = [], copy_err = Some (GoError ''read: connection reset by peer'')\<rparr>"
  have "readResponse messages_en ?w =
      (Return (''error data'', Some (GoError ''read: connection reset by peer'')),
       [EvCopy, EvLogPrintln ''error data'' (Some (GoError ''read: connection reset by peer''))])"
    using readResponse_read_error [of ?w _ messages_en]
    by (simp add: example_world_simps messages_en_def)
  then have "fst (DataSender messages_en ?w example_heap example_data)
     = Return (''error data'', Some (GoError ''read: connection reset by peer''))"
    using DataSender_reading [OF valid_example, of ?w example_conf messages_en]
    by (simp add: example_world_simps)
  then show ?thesis
    by simp
qed

text \<open>
  Claim C7, amended. When a call that reached the reading step fails, the first component
  of its result is the fixed message of that failure and not the accumulated response:
  the read message (with the read error) after a read error, the header message when the
  first five bytes of the buffer are not the magic.
\<close>

theorem DataSender_failure_message:
  assumes "valid_slice h data"
    and "toml_DecodeFile w filePath = Inr conf"
    and "net_Dial w ''tcp'' (address conf) = None"
    and "conn_Write w (zbxMagic @ le_bytes (word_of_nat (len data)) @ slice_bytes h data) = None"
  shows "(copy_err (io_Copy w) = Some err \<longrightarrow>
            fst (DataSender m w h data) = Return (readMsg m, Some err))
     \<and> (copy_err (io_Copy w) = None \<and> Bytes_to (io_Copy w) 5 = Return head \<and> head \<noteq> zbxMagic \<longrightarrow>
            (\<exists>e. fst (DataSender m w h data) = Return (headerMsg m, e)))"
  unfolding DataSender_reading [OF assms]
  by (auto simp: readResponse_read_error readResponse_bad_header)

theorem DataSender_failure_message_witness:
  "fst (DataSender messages_en
          (example_world None
             \<lparr>received = ''ZBX'', spare = [], copy_err = Some (GoError ''read: connection reset by peer'')\<rparr>)
          example_heap example_data)
     = Return (''error data'', Some (GoError ''read: connection reset by peer''))
   \<and> Bytes_to \<lparr>received = ''no'', spare = replicate 510 (CHR 0x00), copy_err = None\<rparr> 5
       = Return (''no'' @ [CHR 0x00, CHR 0x00, CHR 0x00])
   \<and> (\<exists>e. fst (DataSender messages_en
          (example_world None \<lparr>received = ''no'', spare = replicate 510 (CHR 0x00), copy_err = None\<rparr>)
          example_heap example_data)
     = Return (''zabbix server:Invalid data header'', e))"
proof -
  let ?w1 = "example_world None
             \<lparr>received = ''ZBX'', spare = [], copy_err = Some (GoError ''read: connection reset by peer'')\<rparr>"
  let ?w2 = "example_world None \<lparr>received = ''no'', spare = replicate 510 (CHR 0x00), copy_err = None\<rparr>"
  have r510: "replicate 510 (CHR 0x00) = CHR 0x00 # CHR 0x00 # CHR 0x00 # replicate 507 (CHR 0x00)"
    by (simp add: replicate_Suc [symmetric] del: replicate_Suc replicate.simps)
  have b: "Bytes_to \<lparr>received = ''no'', spare = replicate 510 (CHR 0x00), copy_err = None\<rparr> 5
       = Return (''no'' @ [CHR 0x00, CHR 0x00, CHR 0x00])"
    by (simp add: Bytes_to_def r510)
  have "fst (DataSender messages_en ?w1 example_heap example_data)
     = Return (''error data'', Some (GoError ''read: connection reset by peer''))"
    using DataSender_failure_message [OF valid_example, of ?w1 example_conf
        "GoError ''read: connection reset by peer''" messages_en]
    by (simp add: example_world_simps messages_en_def)
  moreover have "\<exists>e. fst (DataSender messages_en ?w2 example_heap example_data)
     = Return (''zabbix server:Invalid data header'', e)"
    using DataSender_failure_message [OF valid_example, of ?w2 example_conf _
        messages_en "''no'' @ [CHR 0x00, CHR 0x00, CHR 0x00]"] b
    by (simp add: example_world_simps messages_en_def zbxMagic_def)
  ultimately show ?thesis
    using b by simp
qed

text \<open>
  Claim C8 says that \<open>Config\<close> returns a valid configuration or aborts. It checks nothing:
  for a file that sets no field the decoder reports no error, \<open>Config\<close> returns the zero
  configuration, which is no server address in the specification's sense, and
  \<open>DataSender\<close> dials the address \<open>:0\<close> formed from it.
\<close>

theorem Config_unchecked_counterexample:
  "toml_DecodeFile
      ((example_world None \<lparr>received = [], spare = [], copy_err = None\<rparr>)
         \<lparr>toml_DecodeFile := \<lambda>path. Inr zero_conf\<rparr>) filePath = Inr zero_conf
   \<and> fst (Config
      ((example_world None \<lparr>received = [], spare = [], copy_err = None\<rparr>)
         \<lparr>toml_DecodeFile := \<lambda>path. Inr zero_conf\<rparr>)) = Return zero_conf
   \<and> \<not> spec_ServerAddress zero_conf
   \<and> dialled (snd (DataSender messages_en
      ((example_world None \<lparr>received = [], spare = [], copy_err = None\<rparr>)
         \<lparr>toml_DecodeFile := \<lambda>path. Inr zero_conf\<rparr>)
      example_heap example_data)) = [(''tcp'', '':0'')]"
proof -
  let ?w = "(example_world None \<lparr>received = [], spare = [], copy_err = None\<rparr>)
         \<lparr>toml_DecodeFile := \<lambda>path. Inr zero_conf\<rparr>"
  have a: "address zero_conf = '':0''"
    by (simp add: address_def zero_conf_def Itoa_def digits.simps)
  have d: "net_Dial ?w ''tcp'' '':0'' = None"
    "conn_Write ?w (zbxMagic @ le_bytes (word_of_nat (len example_data))
       @ slice_bytes example_heap example_data) = None"
    by (simp_all add: example_world_def)
  have "DataSender messages_en ?w example_heap example_data =
     (fst (readResponse messages_en ?w),
      [EvDecodeFile filePath, EvPrintln '':0'', EvDial ''tcp'' '':0'',
       EvWrite (zbxMagic @ le_bytes (word_of_nat (len example_data))
         @ slice_bytes example_heap example_data)]
      @ snd (readResponse messages_en ?w) @ [EvClose])"
    using DataSender_reading [OF valid_example, of ?w zero_conf messages_en] d
    by (simp add: a)
  then have "dialled (snd (DataSender messages_en ?w example_heap example_data))
      = [(''tcp'', '':0'')]"
    by (simp add: dialled_append dialled_readResponse)
  then show ?thesis
    by (simp add: Config_def spec_ServerAddress_def zero_conf_def)
qed

text \<open>
  Claim C8, amended. \<open>Config\<close> returns the configuration as the decoder leaves it,
  unchecked, or panics. When it panics the whole call panics and nothing has touched the
  network. Otherwise the call starts by reading the configuration, printing the address
  formed from it and dialling that address, whatever it is; no later event is a dial, and
  a failed dial ends the call at once with the connect message and the error.
\<close>

theorem Config_before_dial:
  "(toml_DecodeFile w filePath = Inl err \<longrightarrow>
      fst (Config w) = Panic (PanicLog err)
      \<and> DataSender m w h data = (Panic (PanicLog err), [EvDecodeFile filePath, EvLogPanic err]))
   \<and> (toml_DecodeFile w filePath = Inr conf \<longrightarrow>
      fst (Config w) = Return conf
      \<and> (\<exists>rest. snd (DataSender m w h data) =
             [EvDecodeFile filePath, EvPrintln (address conf), EvDial ''tcp'' (address conf)] @ rest
           \<and> dialled rest = []))
   \<and> (toml_DecodeFile w filePath = Inr conf \<and> net_Dial w ''tcp'' (address conf) = Some derr \<longrightarrow>
      DataSender m w h data =
        (Return (connectMsg m, Some derr),
         [EvDecodeFile filePath, EvPrintln (address conf), EvDial ''tcp'' (address conf)]))"
proof (intro conjI impI)
  assume "toml_DecodeFile w filePath = Inl err"
  then show "fst (Config w) = Panic (PanicLog err)"
    and "DataSender m w h data = (Panic (PanicLog err), [EvDecodeFile filePath, EvLogPanic err])"
    by (simp_all add: Config_def DataSender_def)
next
  assume c: "toml_DecodeFile w filePath = Inr conf"
  then show "fst (Config w) = Return conf"
    by (simp add: Config_def)
  show "\<exists>rest. snd (DataSender m w h data) =
             [EvDecodeFile filePath, EvPrintln (address conf), EvDial ''tcp'' (address conf)] @ rest
           \<and> dialled rest = []"
    using c dialled_readResponse [of m w]
    by (auto simp: DataSender_def Config_def Let_def dialled_append
        split: option.split outcome.split prod.split)
next
  assume "toml_DecodeFile w filePath = Inr conf \<and> net_Dial w ''tcp'' (address conf) = Some derr"
  then show "DataSender m w h data =
        (Return (connectMsg m, Some derr),
         [EvDecodeFile filePath, EvPrintln (address conf), EvDial ''tcp'' (address conf)])"
    by (simp add: DataSender_def Config_def Let_def)
qed

theorem Config_before_dial_witness:
  "DataSender messages_en
      ((example_world None \<lparr>received = [], spare = [], copy_err = None\<rparr>)
         \<lparr>toml_DecodeFile := \<lambda>path. Inl (GoError ''open conf.tml: no such file'')\<rparr>)
      example_heap example_data
     = (Panic (PanicLog (GoError ''open conf.tml: no such file'')),
        [EvDecodeFile filePath, EvLogPanic (GoError ''open conf.tml: no such file'')])
   \<and> DataSender messages_en
      ((example_world None \<lparr>received = [], spare = [], copy_err = None\<rparr>)
         \<lparr>net_Dial := \<lambda>network addr. Some (GoError ''connection refused'')\<rparr>)
      example_heap example_data
     = (Return (''connect error:'', Some (GoError ''connection refused'')),
        [EvDecodeFile filePath, EvPrintln ''127.0.0.1:10051'', EvDial ''tcp'' ''127.0.0.1:10051''])
   \<and> dialled (snd (DataSender messages_en
        (example_world None \<lparr>received = [], spare = [], copy_err = None\<rparr>)
        example_heap example_data))
     = [(''tcp'', ''127.0.0.1:10051'')]"
proof -
  let ?w = "example_world None \<lparr>received = [], spare = [], copy_err = None\<rparr>"
  let ?w1 = "?w\<lparr>toml_DecodeFile := \<lambda>path. Inl (GoError ''open conf.tml: no such file'')\<rparr>"
  let ?w2 = "?w\<lparr>net_Dial := \<lambda>network addr. Some (GoError ''connection refused'')\<rparr>"
  have "DataSender messages_en ?w1 example_heap example_data
     = (Panic (PanicLog (GoError ''open conf.tml: no such file'')),
        [EvDecodeFile filePath, EvLogPanic (GoError ''open conf.tml: no such file'')])"
    using Config_before_dial [of ?w1 "GoError ''open conf.tml: no such file''" messages_en
        example_heap example_data]
    by simp
  moreover have "DataSender messages_en ?w2 example_heap example_data
     = (Return (''connect error:'', Some (GoError ''connection refused'')),
        [EvDecodeFile filePath, EvPrintln ''127.0.0.1:10051'', EvDial ''tcp'' ''127.0.0.1:10051''])"
    using Config_before_dial [of ?w2 _ messages_en example_heap example_data example_conf
        "GoError ''connection refused''"]
    by (simp add: example_world_simps example_world_def address_example messages_en_def)
  moreover have "dialled (snd (DataSender messages_en ?w example_heap example_data))
     = [(''tcp'', ''127.0.0.1:10051'')]"
    using Config_before_dial [of ?w _ messages_en example_heap example_data example_conf]
    by (auto simp: example_world_simps address_example)
  ultimately show ?thesis
    by simp
qed

section \<open>The JSON payload\<close>

lemma fields_9987: "float64_fields 0x4058F7AE147AE148 = (False, 1029, 2524126853652808)"
  by (simp add: float64_fields_def)

lemma mant_exp_9987: "float64_mant_exp 1029 2524126853652808 = (7027726481023304, - 46)"
  by (simp add: float64_mant_exp_def)

text \<open>
  The number \<open>7027726481023304 * 2 ^ (- 46)\<close> is less than half a unit in the last place
  away from 99.87: it is the \<open>float64\<close> that the constant of the source denotes.
\<close>

lemma nearest_9987: "\<bar>100 * 7027726481023304 - 9987 * 2 ^ 46\<bar> < (50 :: int)"
  by simp

lemma bounds_9987:
  "float64_bounds 1029 7027726481023304 (- 46) =
     (28110905924093216, 28110905924093214, 28110905924093218, 281474976710656)"
  by (simp add: float64_bounds_def Let_def)

lemma from_9987:
  "roundShortest_from 28110905924093216 28110905924093214 28110905924093218 281474976710656
     True (- 46) 1 = (9987, - 2)"
  by (simp add: roundShortest_from.simps Let_def)

lemma roundShortest_9987: "roundShortest 1029 7027726481023304 (- 46) = (9987, - 2)"
  by (simp add: roundShortest_def bounds_9987 digits.simps from_9987)

lemma floatEncoder_9987: "floatEncoder 0x4058F7AE147AE148 = Inr ''99.87''"
  by (simp add: floatEncoder_def fields_9987 mant_exp_9987 roundShortest_9987 float64_abs_def
      trimZeros_def digits.simps fmtF_def)

lemma spec_join_Cons: "spec_join (v # vs) = v @ (if vs = [] then [] else '','' @ spec_join vs)"
  by (cases vs) simp_all

lemma arrayElems_all_encoded:
  "arrayElems i (map Inr vs) = Inr ((if 0 < i \<and> vs \<noteq> [] then '','' else []) @ spec_join vs @ '']'')"
proof (induction vs arbitrary: i)
  case Nil
  show ?case by simp
next
  case (Cons v vs)
  show ?case
    by (simp add: Cons.IH spec_join_Cons)
qed

lemma MinorData_json_encoded:
  assumes "interfaceEncoder rel (Value r) = Inr v"
  shows "MinorData_json rel r =
     Inr (spec_record_json (appendString rel (Host r)) (appendString rel (Key r)) v
            (Itoa (sint (Clock r))))"
  using assms by (simp add: MinorData_json_def structEncoder_def spec_record_json_def)

lemma Marshal_encoded:
  assumes "Data d = Some rs"
    and "\<forall>r \<in> set rs. interfaceEncoder rel (Value r) = Inr (val r)"
  shows "Marshal rel d =
     Inr (spec_batch_json (appendString rel (Request d))
            (map (\<lambda>r. spec_record_json (appendString rel (Host r)) (appendString rel (Key r))
                         (val r) (Itoa (sint (Clock r)))) rs))"
proof -
  define js where "js = map (\<lambda>r. spec_record_json (appendString rel (Host r))
                                  (appendString rel (Key r)) (val r) (Itoa (sint (Clock r)))) rs"
  have m: "map (MinorData_json rel) rs = map Inr js"
    using assms(2) by (simp add: js_def MinorData_json_encoded)
  have "Marshal rel d = Inr (spec_batch_json (appendString rel (Request d)) js)"
    using assms(1)
    by (simp add: Marshal_def structEncoder_def sliceEncoder_def m arrayElems_all_encoded
        spec_batch_json_def)
  then show ?thesis
    by (simp only: js_def)
qed

lemma Marshal_activeCheck_data:
  \<open>Marshal rel activeCheck_data =
     Inr (''{"request":"agent data","data":[{"host":"host_test","key":"key_test[''
          @ [CHR 0x5C] @ ''"{$URL}'' @ [CHR 0x5C] @ ''",'' @ [CHR 0x5C] @ ''"github'' @ [CHR 0x5C]
          @ ''",'' @ [CHR 0x5C] @ ''"{$HOST}'' @ [CHR 0x5C] @ ''",'' @ [CHR 0x5C] @ ''"space_use''
          @ [CHR 0x5C] @ ''"]","value":99.87,"clock":1566481943}]}'')\<close>
  by (simp add: Marshal_def activeCheck_data_def MinorData_json_def structEncoder_def sliceEncoder_def
     appendString_def htmlSafeSet_def escapeByte_def floatEncoder_9987 Itoa_def digits.simps)

text \<open>
  Claim C6. Every batch whose values can be rendered is serialised as the object with the
  members \<open>request\<close> and \<open>data\<close>, the records in their order, each with the members \<open>host\<close>,
  \<open>key\<close>, \<open>value\<close> and \<open>clock\<close>. For the batch that \<open>activeCheck\<close> builds the result is the JSON
  text of the specification, character for character, the value \<open>99.87\<close> included, in
  every release of the encoder; it is the payload handed to \<open>DataSender\<close>.
\<close>

theorem Marshal_field_names:
  \<open>(Data d = Some rs \<and> (\<forall>r \<in> set rs. interfaceEncoder rel (Value r) = Inr (val r)) \<longrightarrow>
      Marshal rel d =
        Inr (spec_batch_json (appendString rel (Request d))
               (map (\<lambda>r. spec_record_json (appendString rel (Host r)) (appendString rel (Key r))
                            (val r) (Itoa (sint (Clock r)))) rs)))
   \<and> Marshal rel activeCheck_data =
        Inr (''{"request":"agent data","data":[{"host":"host_test","key":"key_test[''
          @ [CHR 0x5C] @ ''"{$URL}'' @ [CHR 0x5C] @ ''",'' @ [CHR 0x5C] @ ''"github'' @ [CHR 0x5C]
          @ ''",'' @ [CHR 0x5C] @ ''"{$HOST}'' @ [CHR 0x5C] @ ''",'' @ [CHR 0x5C] @ ''"space_use''
          @ [CHR 0x5C] @ ''"]","value":99.87,"clock":1566481943}]}'')
   \<and> activeCheck_payload rel =
          ''{"request":"agent data","data":[{"host":"host_test","key":"key_test[''
          @ [CHR 0x5C] @ ''"{$URL}'' @ [CHR 0x5C] @ ''",'' @ [CHR 0x5C] @ ''"github'' @ [CHR 0x5C]
          @ ''",'' @ [CHR 0x5C] @ ''"{$HOST}'' @ [CHR 0x5C] @ ''",'' @ [CHR 0x5C] @ ''"space_use''
          @ [CHR 0x5C] @ ''"]","value":99.87,"clock":1566481943}]}''\<close>
proof (intro conjI impI)
  assume "Data d = Some rs \<and> (\<forall>r \<in> set rs. interfaceEncoder rel (Value r) = Inr (val r))"
  then show "Marshal rel d =
        Inr (spec_batch_json (appendString rel (Request d))
               (map (\<lambda>r. spec_record_json (appendString rel (Host r)) (appendString rel (Key r))
                            (val r) (Itoa (sint (Clock r)))) rs))"
    by (intro Marshal_encoded) simp_all
next
  show m: \<open>Marshal rel activeCheck_data =
        Inr (''{"request":"agent data","data":[{"host":"host_test","key":"key_test[''
          @ [CHR 0x5C] @ ''"{$URL}'' @ [CHR 0x5C] @ ''",'' @ [CHR 0x5C] @ ''"github'' @ [CHR 0x5C]
          @ ''",'' @ [CHR 0x5C] @ ''"{$HOST}'' @ [CHR 0x5C] @ ''",'' @ [CHR 0x5C] @ ''"space_use''
          @ [CHR 0x5C] @ ''"]","value":99.87,"clock":1566481943}]}'')\<close>
    by (rule Marshal_activeCheck_data)
  show \<open>activeCheck_payload rel =
          ''{"request":"agent data","data":[{"host":"host_test","key":"key_test[''
          @ [CHR 0x5C] @ ''"{$URL}'' @ [CHR 0x5C] @ ''",'' @ [CHR 0x5C] @ ''"github'' @ [CHR 0x5C]
          @ ''",'' @ [CHR 0x5C] @ ''"{$HOST}'' @ [CHR 0x5C] @ ''",'' @ [CHR 0x5C] @ ''"space_use''
          @ [CHR 0x5C] @ ''"]","value":99.87,"clock":1566481943}]}''\<close>
    unfolding activeCheck_payload_def m by simp
qed

theorem Marshal_field_names_witness:
  \<open>Data activeCheck_data =
      Some [\<lparr>Host = ''host_test'', Key = ''key_test["{$URL}","github","{$HOST}","space_use"]'',
             Value = VFloat64 0x4058F7AE147AE148, Clock = 1566481943\<rparr>]
   \<and> interfaceEncoder \<lparr>shortEscapes = False, rawReplacement = False\<rparr>
         (VFloat64 0x4058F7AE147AE148) = Inr ''99.87''
   \<and> Marshal \<lparr>shortEscapes = False, rawReplacement = False\<rparr> activeCheck_data =
        Inr (spec_batch_json ''"agent data"''
               [spec_record_json ''"host_test"''
                  (''"key_test['' @ [CHR 0x5C] @ ''"{$URL}'' @ [CHR 0x5C] @ ''",'' @ [CHR 0x5C]
                   @ ''"github'' @ [CHR 0x5C] @ ''",'' @ [CHR 0x5C] @ ''"{$HOST}'' @ [CHR 0x5C]
                   @ ''",'' @ [CHR 0x5C] @ ''"space_use'' @ [CHR 0x5C] @ ''"]"'')
                  ''99.87'' ''1566481943''])\<close>
proof -
  let ?rel = "\<lparr>shortEscapes = False, rawReplacement = False\<rparr>"
  let ?r = \<open>\<lparr>Host = ''host_test'', Key = ''key_test["{$URL}","github","{$HOST}","space_use"]'',
             Value = VFloat64 0x4058F7AE147AE148, Clock = 1566481943\<rparr>\<close>
  have d: "Data activeCheck_data = Some [?r]" "Request activeCheck_data = ''agent data''"
    by (simp_all add: activeCheck_data_def)
  have e: "interfaceEncoder ?rel (VFloat64 0x4058F7AE147AE148) = Inr ''99.87''"
    by (simp add: floatEncoder_9987)
  have c: "Itoa (sint (1566481943 :: 32 word)) = ''1566481943''"
    by (simp add: Itoa_def digits.simps)
  have a: \<open>appendString ?rel ''agent data'' = ''"agent data"''\<close>
    \<open>appendString ?rel ''host_test'' = ''"host_test"''\<close>
    \<open>appendString ?rel ''key_test["{$URL}","github","{$HOST}","space_use"]'' =
       ''"key_test['' @ [CHR 0x5C] @ ''"{$URL}'' @ [CHR 0x5C] @ ''",'' @ [CHR 0x5C]
                   @ ''"github'' @ [CHR 0x5C] @ ''",'' @ [CHR 0x5C] @ ''"{$HOST}'' @ [CHR 0x5C]
                   @ ''",'' @ [CHR 0x5C] @ ''"space_use'' @ [CHR 0x5C] @ ''"]"''\<close>
    by (simp_all add: appendString_def htmlSafeSet_def escapeByte_def)
  note t = Marshal_field_names [of activeCheck_data "[?r]" ?rel "\<lambda>r. ''99.87''"]
  have \<open>Marshal ?rel activeCheck_data =
        Inr (spec_batch_json ''"agent data"''
               [spec_record_json ''"host_test"''
                  (''"key_test['' @ [CHR 0x5C] @ ''"{$URL}'' @ [CHR 0x5C] @ ''",'' @ [CHR 0x5C]
                   @ ''"github'' @ [CHR 0x5C] @ ''",'' @ [CHR 0x5C] @ ''"{$HOST}'' @ [CHR 0x5C]
                   @ ''",'' @ [CHR 0x5C] @ ''"space_use'' @ [CHR 0x5C] @ ''"]"'')
                  ''99.87'' ''1566481943''])\<close>
    using t d e c a by simp
  then show ?thesis
    using d(1) e by simp
qed

end
